theory Spec2Isabelle
  imports Main "HOL-Library.Sublist"
begin

section \<open>The filesystem seen through \<open>fs.promises\<close>\<close>

text \<open>
  The script \<open>fileOps\<close> calls five functions of Node's \<open>fs.promises\<close> on three paths
  built with \<open>path.join(__dirname, 'files', name)\<close>. A path is its list of segments, so
  joining is list concatenation and two joined paths are equal exactly when their
  segments are.

  The filesystem says what is at a path: nothing, a regular file or a directory. A
  regular file is represented by the text that reading it with the \<open>'utf8'\<close> encoding
  yields; writing a string stores that text. Permissions, quotas and device errors are
  outside this model: a call fails only because of what is (or is not) at the path it
  names and on the way to it.
\<close>

type_synonym path = "string list"

datatype node = File string | Dir

type_synonym fs = "path \<rightharpoonup> node"

definition path_join :: "path \<Rightarrow> string list \<Rightarrow> path" where
  "path_join dirname segments = dirname @ segments"

text \<open>
  A path is resolved segment by segment. Where one of its proper prefixes is a regular
  file, nothing below can be reached and resolution fails with ENOTDIR; a prefix the
  filesystem says nothing about is a directory. Otherwise the path resolves to what is
  at it, and fails with ENOENT where nothing is.
\<close>

definition blocked :: "path \<Rightarrow> fs \<Rightarrow> bool" where
  "blocked p d =
     list_ex (\<lambda>q. case d q of Some (File text) \<Rightarrow> True | _ \<Rightarrow> False) (butlast (prefixes p))"

datatype errno = ENOENT | EISDIR | ENOTDIR | ENOTEMPTY | EINVAL

definition resolve :: "path \<Rightarrow> fs \<Rightarrow> errno + node" where
  "resolve p d =
     (if blocked p d then Inl ENOTDIR
      else case d p of None \<Rightarrow> Inl ENOENT | Some n \<Rightarrow> Inr n)"

text \<open>
  A rejected call carries Node's system error: the error code, the system call that
  failed and, where the failing system call was given one, the path and (for
  \<open>rename\<close>) the destination. Reading a directory fails in \<open>read\<close>, on the open file
  descriptor, so that error has no path.
\<close>

record fs_error =
  code :: errno
  syscall :: string
  path :: "path option"
  dest :: "path option"

definition sys_error :: "errno \<Rightarrow> string \<Rightarrow> path \<Rightarrow> fs_error" where
  "sys_error c s p = \<lparr>code = c, syscall = s, path = Some p, dest = None\<rparr>"

definition read_error :: "errno \<Rightarrow> fs_error" where
  "read_error c = \<lparr>code = c, syscall = ''read'', path = None, dest = None\<rparr>"

definition rename_error :: "errno \<Rightarrow> path \<Rightarrow> path \<Rightarrow> fs_error" where
  "rename_error c old new =
     \<lparr>code = c, syscall = ''rename'', path = Some old, dest = Some new\<rparr>"

text \<open>
  Each call takes the filesystem and either rejects with an error, leaving the
  filesystem as it was, or fulfils with a value and the filesystem it leaves behind.
  The error codes are those of Linux.
\<close>

definition readFile :: "path \<Rightarrow> fs \<Rightarrow> fs_error + string \<times> fs" where
  "readFile p d =
     (case resolve p d of
        Inl e \<Rightarrow> Inl (sys_error e ''open'' p)
      | Inr Dir \<Rightarrow> Inl (read_error EISDIR)
      | Inr (File text) \<Rightarrow> Inr (text, d))"

definition unlink :: "path \<Rightarrow> fs \<Rightarrow> fs_error + unit \<times> fs" where
  "unlink p d =
     (case resolve p d of
        Inl e \<Rightarrow> Inl (sys_error e ''unlink'' p)
      | Inr Dir \<Rightarrow> Inl (sys_error EISDIR ''unlink'' p)
      | Inr (File text) \<Rightarrow> Inr ((), d(p := None)))"

definition writeFile :: "path \<Rightarrow> string \<Rightarrow> fs \<Rightarrow> fs_error + unit \<times> fs" where
  "writeFile p text d =
     (case resolve p d of
        Inl e \<Rightarrow>
          (if e = ENOENT then Inr ((), d(p \<mapsto> File text))
           else Inl (sys_error e ''open'' p))
      | Inr Dir \<Rightarrow> Inl (sys_error EISDIR ''open'' p)
      | Inr (File old) \<Rightarrow> Inr ((), d(p \<mapsto> File text)))"

definition appendFile :: "path \<Rightarrow> string \<Rightarrow> fs \<Rightarrow> fs_error + unit \<times> fs" where
  "appendFile p text d =
     (case resolve p d of
        Inl e \<Rightarrow>
          (if e = ENOENT then Inr ((), d(p \<mapsto> File text))
           else Inl (sys_error e ''open'' p))
      | Inr Dir \<Rightarrow> Inl (sys_error EISDIR ''open'' p)
      | Inr (File old) \<Rightarrow> Inr ((), d(p \<mapsto> File (old @ text))))"

text \<open>
  \<open>rename\<close> follows rename(2). A regular file replaces whatever regular file is at the
  destination and is refused a directory there. A directory moves with everything below
  it; it is refused a regular file, a directory that is not empty, and a destination
  below itself.
\<close>

definition move_tree :: "path \<Rightarrow> path \<Rightarrow> fs \<Rightarrow> fs" where
  "move_tree old new d =
     (\<lambda>p. if prefix new p then d (old @ drop (length new) p)
          else if prefix old p then None
          else d p)"

definition occupied :: "path \<Rightarrow> fs \<Rightarrow> bool" where
  "occupied p d = (\<exists>q. q \<noteq> [] \<and> d (p @ q) \<noteq> None)"

definition rename :: "path \<Rightarrow> path \<Rightarrow> fs \<Rightarrow> fs_error + unit \<times> fs" where
  "rename old new d =
     (case resolve old d of
        Inl e \<Rightarrow> Inl (rename_error e old new)
      | Inr (File text) \<Rightarrow>
          (case resolve new d of
             Inl e \<Rightarrow>
               (if e = ENOENT then Inr ((), (d(old := None))(new \<mapsto> File text))
                else Inl (rename_error e old new))
           | Inr Dir \<Rightarrow> Inl (rename_error EISDIR old new)
           | Inr (File replaced) \<Rightarrow> Inr ((), (d(old := None))(new \<mapsto> File text)))
      | Inr Dir \<Rightarrow>
          (if old = new then Inr ((), d)
           else if prefix old new then Inl (rename_error EINVAL old new)
           else case resolve new d of
             Inl e \<Rightarrow>
               (if e = ENOENT then Inr ((), move_tree old new d)
                else Inl (rename_error e old new))
           | Inr (File text) \<Rightarrow> Inl (rename_error ENOTDIR old new)
           | Inr Dir \<Rightarrow>
               (if occupied new d then Inl (rename_error ENOTEMPTY old new)
                else Inr ((), move_tree old new d))))"

section \<open>The script\<close>

text \<open>
  What the script leaves behind, besides the filesystem, is what it printed with
  \<open>console.log\<close>: a string or an error object. The record of calls (which of the six
  awaited calls were issued, in order, and the error each rejected with) is kept
  alongside, as a test double of \<open>fs.promises\<close> would keep it.
\<close>

datatype step =
  ReadStarter | UnlinkStarter | WriteReply | AppendReply | RenameReply | ReadNewreply

datatype logged = Text string | Err fs_error

record world =
  disk :: fs
  console :: "logged list"
  calls :: "(step \<times> fs_error option) list"

definition console_log :: "logged \<Rightarrow> world \<Rightarrow> world" where
  "console_log x w = w\<lparr>console := console w @ [x]\<rparr>"

text \<open>
  While the function is suspended at an \<open>await\<close>, other processes may change the
  filesystem: \<open>others s\<close> is what they do to it before the call of step \<open>s\<close> takes
  effect. \<open>alone\<close> is the run with exclusive access to the filesystem.
\<close>

type_synonym others = "step \<Rightarrow> fs \<Rightarrow> fs"

definition alone :: others where
  "alone = (\<lambda>s d. d)"

definition await :: "others \<Rightarrow> step \<Rightarrow> (fs \<Rightarrow> fs_error + 'a \<times> fs) \<Rightarrow> world
    \<Rightarrow> fs_error \<times> world + 'a \<times> world" where
  "await env s call w =
     (let d = env s (disk w) in
      case call d of
        Inl err \<Rightarrow> Inl (err, w\<lparr>disk := d, calls := calls w @ [(s, Some err)]\<rparr>)
      | Inr (x, d') \<Rightarrow> Inr (x, w\<lparr>disk := d', calls := calls w @ [(s, None)]\<rparr>))"

definition suffix_text :: string where
  "suffix_text = [CHR 0x0A, CHR 0x0A] @ ''appending to this file''"

definition starter :: "path \<Rightarrow> path" where
  "starter dirname = path_join dirname [''files'', ''starter.txt'']"

definition reply :: "path \<Rightarrow> path" where
  "reply dirname = path_join dirname [''files'', ''reply.txt'']"

definition newreply :: "path \<Rightarrow> path" where
  "newreply dirname = path_join dirname [''files'', ''newreply.txt'']"

text \<open>
  The body of the \<open>try\<close> block of \<open>fileOps\<close>, statement by statement: the first
  rejected \<open>await\<close> leaves the block with its error.
\<close>

definition try_block :: "others \<Rightarrow> path \<Rightarrow> world \<Rightarrow> fs_error \<times> world + world" where
  "try_block env dirname w0 =
     (case await env ReadStarter (readFile (starter dirname)) w0 of
        Inl thrown \<Rightarrow> Inl thrown
      | Inr (data, w1) \<Rightarrow>
     (case await env UnlinkStarter (unlink (starter dirname)) (console_log (Text data) w1) of
        Inl thrown \<Rightarrow> Inl thrown
      | Inr (_, w2) \<Rightarrow>
     (case await env WriteReply (writeFile (reply dirname) data) w2 of
        Inl thrown \<Rightarrow> Inl thrown
      | Inr (_, w3) \<Rightarrow>
     (case await env AppendReply (appendFile (reply dirname) suffix_text) w3 of
        Inl thrown \<Rightarrow> Inl thrown
      | Inr (_, w4) \<Rightarrow>
     (case await env RenameReply (rename (reply dirname) (newreply dirname)) w4 of
        Inl thrown \<Rightarrow> Inl thrown
      | Inr (_, w5) \<Rightarrow>
     (case await env ReadNewreply (readFile (newreply dirname)) w5 of
        Inl thrown \<Rightarrow> Inl thrown
      | Inr (newData, w6) \<Rightarrow> Inr (console_log (Text newData) w6)))))))"

text \<open>
  \<open>fileOps\<close> is an \<open>async\<close> function: its caller gets a promise, which is fulfilled with
  the function's return value or rejected with what it throws. The \<open>catch\<close> clause
  prints the error; neither branch has a \<open>return\<close>, so the value is \<open>undefined\<close>.
\<close>

datatype js_value = Undefined | Str string

datatype settlement = Fulfilled js_value | Rejected fs_error

definition fileOps :: "others \<Rightarrow> path \<Rightarrow> fs \<Rightarrow> settlement \<times> world" where
  "fileOps env dirname d =
     (case try_block env dirname \<lparr>disk = d, console = [], calls = []\<rparr> of
        Inl (err, w) \<Rightarrow> (Fulfilled Undefined, console_log (Err err) w)
      | Inr w \<Rightarrow> (Fulfilled Undefined, w))"

text \<open>
  The script calls \<open>fileOps()\<close> and drops the promise, then installs the
  \<open>uncaughtException\<close> handler. A rejected promise that nobody handles is raised by Node
  as an uncaught exception: the handler prints it with \<open>console.error\<close> and exits with
  status 1. Otherwise the process ends with status 0 when nothing is left to do.
\<close>

record process =
  exit_status :: nat
  stderr :: "fs_error list"
  after :: world

definition script :: "others \<Rightarrow> path \<Rightarrow> fs \<Rightarrow> process" where
  "script env dirname d =
     (case fileOps env dirname d of
        (Rejected err, w) \<Rightarrow> \<lparr>exit_status = 1, stderr = [err], after = w\<rparr>
      | (Fulfilled v, w) \<Rightarrow> \<lparr>exit_status = 0, stderr = [], after = w\<rparr>)"

text \<open>A run completed when all six calls were issued and none was rejected.\<close>

definition all_steps :: "step list" where
  "all_steps = [ReadStarter, UnlinkStarter, WriteReply, AppendReply, RenameReply, ReadNewreply]"

definition completed :: "world \<Rightarrow> bool" where
  "completed w = (calls w = map (\<lambda>s. (s, None)) all_steps)"

text \<open>The two halves of what \<open>fileOps\<close> gives: the promise and what the run left.\<close>

definition promise :: "others \<Rightarrow> path \<Rightarrow> fs \<Rightarrow> settlement" where
  "promise env dirname d = fst (fileOps env dirname d)"

definition outcome :: "others \<Rightarrow> path \<Rightarrow> fs \<Rightarrow> world" where
  "outcome env dirname d = snd (fileOps env dirname d)"

text \<open>Another process that removes \<open>files/reply.txt\<close> just before the rename.\<close>

definition reply_removed :: "path \<Rightarrow> others" where
  "reply_removed dirname = (\<lambda>s d. if s = RenameReply then d(reply dirname := None) else d)"

section \<open>Facts about the calls\<close>

lemmas api_defs = readFile_def unlink_def writeFile_def appendFile_def rename_def
  sys_error_def read_error_def rename_error_def

lemmas run_defs = outcome_def fileOps_def try_block_def await_def console_log_def Let_def

lemma paths_distinct [simp]:
  "starter dirname \<noteq> reply dirname" "reply dirname \<noteq> starter dirname"
  "starter dirname \<noteq> newreply dirname" "newreply dirname \<noteq> starter dirname"
  "reply dirname \<noteq> newreply dirname" "newreply dirname \<noteq> reply dirname"
  by (simp_all add: starter_def reply_def newreply_def path_join_def)

text \<open>The three files are in one directory: what is on the way to one is on the way to all.\<close>

lemma proper_prefixes_of_file:
  "butlast (prefixes (dirname @ [a, b])) = prefixes (dirname @ [a])"
proof -
  have "prefixes ((dirname @ [a]) @ [b]) = prefixes (dirname @ [a]) @ [(dirname @ [a]) @ [b]]"
    by (rule prefixes_snoc)
  then have "butlast (prefixes ((dirname @ [a]) @ [b])) = prefixes (dirname @ [a])"
    by (simp only: butlast_snoc)
  then show ?thesis
    by simp
qed

lemma blocked_siblings [simp]:
  "blocked (reply dirname) d = blocked (starter dirname) d"
  "blocked (newreply dirname) d = blocked (starter dirname) d"
  by (simp_all add: blocked_def starter_def reply_def newreply_def path_join_def
      proper_prefixes_of_file)

lemma blocked_update:
  assumes "length p \<le> length q"
  shows "blocked p (d(q := v)) = blocked p d"
proof -
  have "r \<noteq> q" if "r \<in> set (butlast (prefixes p))" for r
  proof (cases p rule: rev_cases)
    case Nil
    with that show ?thesis by simp
  next
    case (snoc xs x)
    with that have "prefix r xs"
      by simp
    then have "length r \<le> length xs"
      by (rule prefix_length_le)
    with snoc assms show ?thesis
      by auto
  qed
  then show ?thesis
    by (auto simp: blocked_def list_ex_iff)
qed

lemma blocked_file_update [simp]:
  "blocked (starter dirname) (d(starter dirname := v)) = blocked (starter dirname) d"
  "blocked (starter dirname) (d(reply dirname := v)) = blocked (starter dirname) d"
  "blocked (starter dirname) (d(newreply dirname := v)) = blocked (starter dirname) d"
  by (simp_all add: blocked_update starter_def reply_def newreply_def path_join_def)

lemma resolve_file:
  "resolve p d = Inr n \<longleftrightarrow> \<not> blocked p d \<and> d p = Some n"
  by (simp add: resolve_def split: option.splits)


lemma rename_error_fields:
  "rename old new d = Inl err \<Longrightarrow>
     syscall err = ''rename'' \<and> path err = Some old \<and> dest err = Some new"
  by (auto simp: rename_def rename_error_def split: sum.splits node.splits if_splits)

text \<open>A call changes nothing at a path it is not given.\<close>

lemma readFile_fulfilled:
  "readFile p d = Inr (x, d') \<Longrightarrow> d' = d \<and> d p = Some (File x)"
  by (auto simp: readFile_def resolve_file split: sum.splits node.splits)

lemma readFile_frame: "readFile p d = Inr (x, d') \<Longrightarrow> d' = d"
  by (simp add: readFile_fulfilled)

lemma unlink_frame: "unlink p d = Inr (x, d') \<Longrightarrow> q \<noteq> p \<Longrightarrow> d' q = d q"
  by (auto simp: unlink_def split: sum.splits node.splits)

lemma writeFile_frame: "writeFile p text d = Inr (x, d') \<Longrightarrow> q \<noteq> p \<Longrightarrow> d' q = d q"
  by (auto simp: writeFile_def split: sum.splits node.splits if_splits)

lemma appendFile_frame: "appendFile p text d = Inr (x, d') \<Longrightarrow> q \<noteq> p \<Longrightarrow> d' q = d q"
  by (auto simp: appendFile_def split: sum.splits node.splits if_splits)

section \<open>Facts about any run\<close>

lemma promise_fulfilled: "promise env dirname d = Fulfilled Undefined"
  by (simp add: promise_def fileOps_def split: sum.splits prod.splits)

lemma script_exit: "exit_status (script env dirname d) = 0 \<and> stderr (script env dirname d) = []"
  using promise_fulfilled [of env dirname d]
  by (cases "fileOps env dirname d") (simp add: script_def promise_def)

lemma rejected_logged:
  assumes "(s, Some err) \<in> set (calls (outcome env dirname d))"
  shows "console (outcome env dirname d) \<noteq> []
     \<and> last (console (outcome env dirname d)) = Err err
     \<and> last (calls (outcome env dirname d)) = (s, Some err)"
  using assms by (auto simp: run_defs split: sum.splits prod.splits)

lemma calls_in_order:
  "map fst (calls (outcome env dirname d))
     = take (length (calls (outcome env dirname d))) all_steps
   \<and> (\<forall>c \<in> set (butlast (calls (outcome env dirname d))). snd c = None)"
  by (auto simp: run_defs all_steps_def split: sum.splits prod.splits)

lemma rename_rejected_run:
  assumes "(RenameReply, Some err) \<in> set (calls (outcome env dirname d))"
  shows "\<exists>data d1 d2 d3 d4.
      readFile (starter dirname) (env ReadStarter d) = Inr (data, d1)
    \<and> unlink (starter dirname) (env UnlinkStarter d1) = Inr ((), d2)
    \<and> writeFile (reply dirname) data (env WriteReply d2) = Inr ((), d3)
    \<and> appendFile (reply dirname) suffix_text (env AppendReply d3) = Inr ((), d4)
    \<and> rename (reply dirname) (newreply dirname) (env RenameReply d4) = Inl err
    \<and> disk (outcome env dirname d) = env RenameReply d4"
  using assms by (auto simp: run_defs split: sum.splits prod.splits)

lemma newreply_untouched:
  assumes rej: "(RenameReply, Some err) \<in> set (calls (outcome env dirname d))"
      and env: "\<And>s x. env s x (newreply dirname) = x (newreply dirname)"
  shows "disk (outcome env dirname d) (newreply dirname) = d (newreply dirname)"
proof -
  from rename_rejected_run [OF rej] obtain data d1 d2 d3 d4 where
    1: "readFile (starter dirname) (env ReadStarter d) = Inr (data, d1)" and
    2: "unlink (starter dirname) (env UnlinkStarter d1) = Inr ((), d2)" and
    3: "writeFile (reply dirname) data (env WriteReply d2) = Inr ((), d3)" and
    4: "appendFile (reply dirname) suffix_text (env AppendReply d3) = Inr ((), d4)" and
    5: "disk (outcome env dirname d) = env RenameReply d4"
    by blast
  have "d1 (newreply dirname) = d (newreply dirname)"
    using readFile_frame [OF 1] env by simp
  moreover have "d2 (newreply dirname) = d1 (newreply dirname)"
    using unlink_frame [OF 2, of "newreply dirname"] env by simp
  moreover have "d3 (newreply dirname) = d2 (newreply dirname)"
    using writeFile_frame [OF 3, of "newreply dirname"] env by simp
  moreover have "d4 (newreply dirname) = d3 (newreply dirname)"
    using appendFile_frame [OF 4, of "newreply dirname"] env by simp
  ultimately show ?thesis
    using 5 env by simp
qed

lemma completed_last_read:
  assumes "completed (outcome env dirname d)"
  shows "\<exists>d5 newData.
      readFile (newreply dirname) d5 = Inr (newData, disk (outcome env dirname d))
    \<and> last (console (outcome env dirname d)) = Text newData"
  using assms
  by (auto simp: run_defs completed_def all_steps_def split: sum.splits prod.splits)

lemma completed_read:
  assumes "completed (outcome env dirname d)"
  shows "\<exists>text. disk (outcome env dirname d) (newreply dirname) = Some (File text)
      \<and> last (console (outcome env dirname d)) = Text text"
proof -
  from completed_last_read [OF assms] obtain d5 newData where
    r: "readFile (newreply dirname) d5 = Inr (newData, disk (outcome env dirname d))"
    and l: "last (console (outcome env dirname d)) = Text newData"
    by blast
  from readFile_fulfilled [OF r] have "disk (outcome env dirname d) = d5"
    and "d5 (newreply dirname) = Some (File newData)"
    by simp_all
  with l show ?thesis
    by simp
qed

lemma unlink_after_read:
  assumes "(UnlinkStarter, r) \<in> set (calls (outcome env dirname d))"
  shows "(ReadStarter, None) \<in> set (calls (outcome env dirname d))"
  using assms by (auto simp: run_defs split: sum.splits prod.splits)

lemma distinct_all_steps: "distinct all_steps"
  by (simp add: all_steps_def)

section \<open>Facts about a run with the filesystem to itself\<close>

lemma alone_absent:
  assumes "resolve (starter dirname) d = Inl e"
  shows "outcome alone dirname d =
    \<lparr>disk = d, console = [Err (sys_error e ''open'' (starter dirname))],
     calls = [(ReadStarter, Some (sys_error e ''open'' (starter dirname)))]\<rparr>"
  using assms by (simp add: run_defs alone_def readFile_def)

lemma alone_run:
  assumes "resolve (starter dirname) d = Inr (File t)"
      and "d (reply dirname) \<noteq> Some Dir" and "d (newreply dirname) \<noteq> Some Dir"
  shows "outcome alone dirname d =
    \<lparr>disk = (d(starter dirname := None, reply dirname := None))
              (newreply dirname \<mapsto> File (t @ suffix_text)),
     console = [Text t, Text (t @ suffix_text)],
     calls = map (\<lambda>s. (s, None)) all_steps\<rparr>"
proof -
  from assms(1) have b: "\<not> blocked (starter dirname) d"
    and s: "d (starter dirname) = Some (File t)"
    by (simp_all add: resolve_file)
  show ?thesis
    using b s assms(2,3)
    by (auto simp: run_defs alone_def api_defs resolve_def all_steps_def fun_upd_twist
        split: option.splits node.splits)
qed

lemma alone_completed_iff:
  "completed (outcome alone dirname d) \<longleftrightarrow>
     (\<exists>t. resolve (starter dirname) d = Inr (File t)) \<and> d (reply dirname) \<noteq> Some Dir
       \<and> d (newreply dirname) \<noteq> Some Dir"
  by (auto simp: run_defs alone_def api_defs resolve_def all_steps_def completed_def
      split: option.splits node.splits)

lemma alone_starter_deleted:
  assumes "resolve (starter dirname) d = Inr (File t)"
  shows "resolve (starter dirname) (disk (outcome alone dirname d)) = Inl ENOENT"
proof -
  from assms have b: "\<not> blocked (starter dirname) d"
    and s: "d (starter dirname) = Some (File t)"
    by (simp_all add: resolve_file)
  show ?thesis
    using b s
    by (auto simp: run_defs alone_def api_defs resolve_def
        split: option.splits node.splits)
qed

lemma alone_unlinked:
  assumes "(UnlinkStarter, None) \<in> set (calls (outcome alone dirname d))"
  shows "disk (outcome alone dirname d) (starter dirname) = None"
  using assms
  by (cases "blocked (starter dirname) d")
    (auto simp: run_defs alone_def api_defs resolve_def split: option.splits node.splits)

text \<open>The definitions a concrete filesystem is evaluated with.\<close>

lemmas fixture_defs = run_defs alone_def api_defs resolve_def blocked_def
  starter_def reply_def newreply_def path_join_def

section \<open>The promise and the process\<close>

text \<open>
  C9. Whatever the filesystem holds and whatever other processes do to it, the promise
  of \<open>fileOps\<close> is fulfilled (with \<open>undefined\<close>) and never rejected: the error of a
  rejected call is caught and printed, it is the last thing on the console, nothing
  reaches the \<open>uncaughtException\<close> handler, and the process ends with status 0.
\<close>

theorem fileOps_never_rejects:
  "promise env dirname d = Fulfilled Undefined
   \<and> exit_status (script env dirname d) = 0
   \<and> stderr (script env dirname d) = []
   \<and> (\<forall>s err. (s, Some err) \<in> set (calls (outcome env dirname d))
         \<longrightarrow> last (console (outcome env dirname d)) = Err err)"
  using promise_fulfilled [of env dirname d] script_exit [of env dirname d]
    rejected_logged [of _ _ env dirname d]
  by blast

theorem fileOps_never_rejects_witness:
  "calls (outcome alone [''app''] Map.empty)
     = [(ReadStarter, Some (sys_error ENOENT ''open'' (starter [''app''])))]
   \<and> promise alone [''app''] Map.empty = Fulfilled Undefined
   \<and> exit_status (script alone [''app''] Map.empty) = 0
   \<and> stderr (script alone [''app''] Map.empty) = []
   \<and> last (console (outcome alone [''app''] Map.empty))
       = Err (sys_error ENOENT ''open'' (starter [''app'']))"
proof -
  have c: "calls (outcome alone [''app''] Map.empty)
      = [(ReadStarter, Some (sys_error ENOENT ''open'' (starter [''app''])))]"
    by (simp add: fixture_defs)
  show ?thesis
    using c fileOps_never_rejects [of alone "[''app'']" Map.empty] by simp
qed

text \<open>
  C2, as amended. In every run in which a call is rejected, the error of that call,
  which is the last call issued, is caught inside \<open>fileOps\<close> and printed last on the
  console; the caller's promise is fulfilled with \<open>undefined\<close>, and the process ends
  with status 0, the \<open>uncaughtException\<close> handler never running.
\<close>

theorem rejected_call_is_caught:
  assumes "(s, Some err) \<in> set (calls (outcome env dirname d))"
  shows "last (console (outcome env dirname d)) = Err err
     \<and> last (calls (outcome env dirname d)) = (s, Some err)
     \<and> promise env dirname d = Fulfilled Undefined
     \<and> exit_status (script env dirname d) = 0
     \<and> stderr (script env dirname d) = []"
  using rejected_logged [OF assms]
    promise_fulfilled [of env dirname d] script_exit [of env dirname d]
  by simp

theorem rejected_call_is_caught_witness:
  "(WriteReply, Some (sys_error EISDIR ''open'' (reply [''app''])))
      \<in> set (calls (outcome alone [''app'']
            [starter [''app''] \<mapsto> File ''hello'', reply [''app''] \<mapsto> Dir]))
   \<and> last (console (outcome alone [''app'']
            [starter [''app''] \<mapsto> File ''hello'', reply [''app''] \<mapsto> Dir]))
       = Err (sys_error EISDIR ''open'' (reply [''app'']))
   \<and> exit_status (script alone [''app'']
            [starter [''app''] \<mapsto> File ''hello'', reply [''app''] \<mapsto> Dir]) = 0"
proof -
  have h: "(WriteReply, Some (sys_error EISDIR ''open'' (reply [''app''])))
      \<in> set (calls (outcome alone [''app'']
            [starter [''app''] \<mapsto> File ''hello'', reply [''app''] \<mapsto> Dir]))"
    by (simp add: fixture_defs)
  show ?thesis
    using h rejected_call_is_caught [OF h] by simp
qed

text \<open>
  The claim C2 as the specification has it (the failure reaches the caller and the
  process ends with a status other than 0) fails where \<open>files/starter.txt\<close> is
  missing: the read is rejected, the promise is fulfilled and the status is 0.
\<close>

theorem failure_not_surfaced_counterexample:
  "calls (outcome alone [''app''] Map.empty)
     = [(ReadStarter, Some (sys_error ENOENT ''open'' (starter [''app''])))]
   \<and> promise alone [''app''] Map.empty = Fulfilled Undefined
   \<and> exit_status (script alone [''app''] Map.empty) = 0"
  by (simp add: fixture_defs promise_fulfilled script_exit)

text \<open>
  C5, as amended. In every run in which the rename is rejected, the error the
  \<open>catch\<close> clause prints is the error of the rename (system call \<open>rename\<close>, from
  \<open>files/reply.txt\<close> to \<open>files/newreply.txt\<close>); nothing is returned to the caller, whose
  promise is fulfilled with \<open>undefined\<close>; and \<open>files/newreply.txt\<close> is as it was before
  the run (missing if it was missing), provided no other process changes it.
\<close>

theorem rename_rejection_reported:
  assumes "(RenameReply, Some err) \<in> set (calls (outcome env dirname d))"
  shows "syscall err = ''rename'' \<and> path err = Some (reply dirname)
     \<and> dest err = Some (newreply dirname)
     \<and> last (console (outcome env dirname d)) = Err err
     \<and> promise env dirname d = Fulfilled Undefined
     \<and> ((\<forall>s x. env s x (newreply dirname) = x (newreply dirname))
          \<longrightarrow> disk (outcome env dirname d) (newreply dirname) = d (newreply dirname))"
proof -
  from rename_rejected_run [OF assms] obtain d4 where
    "rename (reply dirname) (newreply dirname) (env RenameReply d4) = Inl err"
    by blast
  then have "syscall err = ''rename'' \<and> path err = Some (reply dirname)
      \<and> dest err = Some (newreply dirname)"
    by (rule rename_error_fields)
  moreover have "last (console (outcome env dirname d)) = Err err"
    using rejected_logged [OF assms] by simp
  moreover have "promise env dirname d = Fulfilled Undefined"
    by (rule promise_fulfilled)
  moreover have "(\<forall>s x. env s x (newreply dirname) = x (newreply dirname))
      \<longrightarrow> disk (outcome env dirname d) (newreply dirname) = d (newreply dirname)"
    using newreply_untouched [OF assms] by blast
  ultimately show ?thesis
    by blast
qed

theorem rename_rejection_reported_witness:
  "(RenameReply, Some (rename_error ENOENT (reply [''app'']) (newreply [''app''])))
      \<in> set (calls (outcome (reply_removed [''app'']) [''app'']
            [starter [''app''] \<mapsto> File ''hello'']))
   \<and> last (console (outcome (reply_removed [''app'']) [''app'']
            [starter [''app''] \<mapsto> File ''hello'']))
       = Err (rename_error ENOENT (reply [''app'']) (newreply [''app'']))
   \<and> disk (outcome (reply_removed [''app'']) [''app''] [starter [''app''] \<mapsto> File ''hello''])
       (newreply [''app'']) = None"
proof -
  have h: "(RenameReply, Some (rename_error ENOENT (reply [''app'']) (newreply [''app''])))
      \<in> set (calls (outcome (reply_removed [''app'']) [''app'']
            [starter [''app''] \<mapsto> File ''hello'']))"
    by (simp add: fixture_defs reply_removed_def)
  have e: "\<forall>s x. reply_removed [''app''] s x (newreply [''app'']) = x (newreply [''app''])"
    by (simp add: reply_removed_def)
  show ?thesis
    using h e rename_rejection_reported [OF h] by simp
qed

text \<open>
  The claim C5 as the specification has it (an error is returned, and
  \<open>files/newreply.txt\<close> does not exist after the run) fails where an earlier
  \<open>files/newreply.txt\<close> is there and \<open>files/reply.txt\<close> is removed before the rename:
  the rename is rejected, the promise is fulfilled with \<open>undefined\<close>, and the earlier
  file still exists.
\<close>

theorem earlier_newreply_survives_counterexample:
  "last (calls (outcome (reply_removed [''app'']) [''app'']
      [starter [''app''] \<mapsto> File ''hello'', newreply [''app''] \<mapsto> File ''old'']))
     = (RenameReply, Some (rename_error ENOENT (reply [''app'']) (newreply [''app''])))
   \<and> promise (reply_removed [''app'']) [''app'']
      [starter [''app''] \<mapsto> File ''hello'', newreply [''app''] \<mapsto> File ''old'']
     = Fulfilled Undefined
   \<and> disk (outcome (reply_removed [''app'']) [''app'']
      [starter [''app''] \<mapsto> File ''hello'', newreply [''app''] \<mapsto> File ''old''])
      (newreply [''app'']) = Some (File ''old'')"
  by (simp add: fixture_defs reply_removed_def promise_fulfilled)

section \<open>The order of the calls\<close>

text \<open>
  C8. In every run, whatever other processes do, the calls issued are an initial part
  of the six in their order, each at most once; every call but the last issued was
  fulfilled, so a call is issued only after the one before it succeeded and on the
  filesystem that one left; in particular the unlink is issued only after the first
  read was fulfilled. Nothing is undone: with the filesystem to itself, once the
  unlink was fulfilled the starter file stays removed however the run ends.
\<close>

theorem steps_in_sequence:
  "map fst (calls (outcome env dirname d))
     = take (length (calls (outcome env dirname d))) all_steps
   \<and> distinct (map fst (calls (outcome env dirname d)))
   \<and> (\<forall>c \<in> set (butlast (calls (outcome env dirname d))). snd c = None)
   \<and> ((UnlinkStarter, r) \<in> set (calls (outcome env dirname d))
        \<longrightarrow> (ReadStarter, None) \<in> set (calls (outcome env dirname d)))
   \<and> ((UnlinkStarter, None) \<in> set (calls (outcome alone dirname d))
        \<longrightarrow> disk (outcome alone dirname d) (starter dirname) = None)"
proof -
  have o: "map fst (calls (outcome env dirname d))
      = take (length (calls (outcome env dirname d))) all_steps"
    and b: "\<forall>c \<in> set (butlast (calls (outcome env dirname d))). snd c = None"
    using calls_in_order [of env dirname d] by simp_all
  have "distinct (take (length (calls (outcome env dirname d))) all_steps)"
    using distinct_all_steps by (rule distinct_take)
  with o have "distinct (map fst (calls (outcome env dirname d)))"
    by simp
  with o b show ?thesis
    using unlink_after_read [of r env dirname d] alone_unlinked [of dirname d] by blast
qed

theorem steps_in_sequence_witness:
  "calls (outcome alone [''app''] [starter [''app''] \<mapsto> File ''hello'', reply [''app''] \<mapsto> Dir])
     = [(ReadStarter, None), (UnlinkStarter, None),
        (WriteReply, Some (sys_error EISDIR ''open'' (reply [''app''])))]
   \<and> map fst (calls (outcome alone [''app'']
        [starter [''app''] \<mapsto> File ''hello'', reply [''app''] \<mapsto> Dir]))
     = [ReadStarter, UnlinkStarter, WriteReply]
   \<and> disk (outcome alone [''app''] [starter [''app''] \<mapsto> File ''hello'', reply [''app''] \<mapsto> Dir])
        (starter [''app'']) = None"
proof -
  have c: "calls (outcome alone [''app''] [starter [''app''] \<mapsto> File ''hello'', reply [''app''] \<mapsto> Dir])
     = [(ReadStarter, None), (UnlinkStarter, None),
        (WriteReply, Some (sys_error EISDIR ''open'' (reply [''app''])))]"
    by (simp add: fixture_defs)
  show ?thesis
    using c steps_in_sequence [of alone "[''app'']"
        "[starter [''app''] \<mapsto> File ''hello'', reply [''app''] \<mapsto> Dir]" None]
    by simp
qed

section \<open>The run on a starter file\<close>

text \<open>
  C1, as amended. Where \<open>files/starter.txt\<close> is a regular file with text \<open>t\<close> (the
  path resolves to it) and
  neither \<open>files/reply.txt\<close> nor \<open>files/newreply.txt\<close> is a directory (each may be
  missing or a regular file), the run with the filesystem to itself completes all six
  calls and leaves \<open>files/newreply.txt\<close> with exactly \<open>t\<close> followed by two newlines
  and \<open>appending to this file\<close>, and neither \<open>files/starter.txt\<close> nor
  \<open>files/reply.txt\<close>.
\<close>

theorem fileOps_transforms:
  assumes "resolve (starter dirname) d = Inr (File t)"
      and "d (reply dirname) \<noteq> Some Dir" and "d (newreply dirname) \<noteq> Some Dir"
  shows "completed (outcome alone dirname d)
     \<and> disk (outcome alone dirname d) (newreply dirname) = Some (File (t @ suffix_text))
     \<and> disk (outcome alone dirname d) (starter dirname) = None
     \<and> disk (outcome alone dirname d) (reply dirname) = None"
  by (simp add: alone_run [OF assms] completed_def)

theorem fileOps_transforms_witness:
  "completed (outcome alone [''app''] [starter [''app''] \<mapsto> File ''hello''])
   \<and> disk (outcome alone [''app''] [starter [''app''] \<mapsto> File ''hello'']) (newreply [''app''])
       = Some (File (''hello'' @ [CHR 0x0A, CHR 0x0A] @ ''appending to this file''))
   \<and> disk (outcome alone [''app''] [starter [''app''] \<mapsto> File ''hello'']) (starter [''app''])
       = None
   \<and> disk (outcome alone [''app''] [starter [''app''] \<mapsto> File ''hello'']) (reply [''app''])
       = None"
  using fileOps_transforms [where d = "[starter [''app''] \<mapsto> File ''hello'']"
      and dirname = "[''app'']" and t = "''hello''"]
  by (simp add: suffix_text_def resolve_def blocked_def starter_def reply_def newreply_def
      path_join_def)

text \<open>
  The claim C1 with the other two paths unconstrained fails where \<open>files/reply.txt\<close>
  is a directory: the write is rejected after the starter file is gone, and no
  \<open>files/newreply.txt\<close> appears.
\<close>

theorem reply_directory_counterexample:
  "calls (outcome alone [''app''] [starter [''app''] \<mapsto> File ''hello'', reply [''app''] \<mapsto> Dir])
     = [(ReadStarter, None), (UnlinkStarter, None),
        (WriteReply, Some (sys_error EISDIR ''open'' (reply [''app''])))]
   \<and> disk (outcome alone [''app''] [starter [''app''] \<mapsto> File ''hello'', reply [''app''] \<mapsto> Dir])
       (newreply [''app'']) = None
   \<and> disk (outcome alone [''app''] [starter [''app''] \<mapsto> File ''hello'', reply [''app''] \<mapsto> Dir])
       (reply [''app'']) = Some Dir"
  by (simp add: fixture_defs)

text \<open>
  C3, as amended. In every run that completes, the promise is fulfilled with
  \<open>undefined\<close>; the text of \<open>files/newreply.txt\<close>, read by the last call, is what the
  run prints last on the console.
\<close>

theorem completed_prints_newreply:
  assumes "completed (outcome env dirname d)"
  shows "promise env dirname d = Fulfilled Undefined
     \<and> (\<exists>text. disk (outcome env dirname d) (newreply dirname) = Some (File text)
           \<and> last (console (outcome env dirname d)) = Text text)"
  using completed_read [OF assms] promise_fulfilled [of env dirname d] by simp

theorem completed_prints_newreply_witness:
  "completed (outcome alone [''app''] [starter [''app''] \<mapsto> File ''hello''])
   \<and> promise alone [''app''] [starter [''app''] \<mapsto> File ''hello''] = Fulfilled Undefined
   \<and> last (console (outcome alone [''app''] [starter [''app''] \<mapsto> File ''hello'']))
       = Text (''hello'' @ suffix_text)"
proof -
  have h: "completed (outcome alone [''app''] [starter [''app''] \<mapsto> File ''hello''])"
    by (simp add: fixture_defs completed_def all_steps_def)
  have l: "last (console (outcome alone [''app''] [starter [''app''] \<mapsto> File ''hello'']))
      = Text (''hello'' @ suffix_text)"
    by (simp add: fixture_defs)
  show ?thesis
    using h l completed_prints_newreply [OF h] by simp
qed

text \<open>
  The claim C3 as the specification has it (the final content is the value returned to
  the caller) fails on the starter file \<open>hello\<close>: the run completes and the promise
  is not fulfilled with the content.
\<close>

theorem content_not_returned_counterexample:
  "completed (outcome alone [''app''] [starter [''app''] \<mapsto> File ''hello''])
   \<and> promise alone [''app''] [starter [''app''] \<mapsto> File ''hello'']
       \<noteq> Fulfilled (Str (''hello'' @ suffix_text))"
  by (simp add: fixture_defs completed_def all_steps_def promise_fulfilled)




text \<open>
  C6. In every run with the filesystem to itself that completes, the text the last
  read returns (printed second) is the text written to \<open>files/reply.txt\<close> (the text
  of the starter file, printed first) followed by the appended suffix, character for
  character, and it is what \<open>files/newreply.txt\<close> holds.
\<close>

theorem round_trip:
  assumes "completed (outcome alone dirname d)"
  shows "\<exists>data. d (starter dirname) = Some (File data)
     \<and> console (outcome alone dirname d) = [Text data, Text (data @ suffix_text)]
     \<and> disk (outcome alone dirname d) (newreply dirname) = Some (File (data @ suffix_text))"
proof -
  from assms obtain t where t: "resolve (starter dirname) d = Inr (File t)"
    and r: "d (reply dirname) \<noteq> Some Dir" and n: "d (newreply dirname) \<noteq> Some Dir"
    by (auto simp: alone_completed_iff)
  from t have "d (starter dirname) = Some (File t)"
    by (simp add: resolve_file)
  then show ?thesis
    by (simp add: alone_run [OF t r n])
qed

theorem round_trip_witness:
  "completed (outcome alone [''app''] [starter [''app''] \<mapsto> File ''hello''])
   \<and> console (outcome alone [''app''] [starter [''app''] \<mapsto> File ''hello''])
       = [Text ''hello'', Text (''hello'' @ suffix_text)]"
proof -
  have h: "completed (outcome alone [''app''] [starter [''app''] \<mapsto> File ''hello''])"
    by (simp add: fixture_defs completed_def all_steps_def)
  show ?thesis
    using h round_trip [OF h] by auto
qed

text \<open>
  C7. Where \<open>files/starter.txt\<close> is a regular file (the path resolves to it), a
  second run on the filesystem the first run left issues the first read only, and it
  is rejected with ENOENT: the first run removed the file.
\<close>

theorem second_run_fails:
  assumes "resolve (starter dirname) d = Inr (File t)"
  shows "calls (outcome alone dirname (disk (outcome alone dirname d)))
       = [(ReadStarter, Some (sys_error ENOENT ''open'' (starter dirname)))]
     \<and> code (sys_error ENOENT ''open'' (starter dirname)) = ENOENT"
proof -
  have "resolve (starter dirname) (disk (outcome alone dirname d)) = Inl ENOENT"
    using assms by (rule alone_starter_deleted)
  from alone_absent [OF this] show ?thesis
    by (simp add: sys_error_def)
qed

theorem second_run_fails_witness:
  "completed (outcome alone [''app''] [starter [''app''] \<mapsto> File ''hello''])
   \<and> calls (outcome alone [''app'']
        (disk (outcome alone [''app''] [starter [''app''] \<mapsto> File ''hello''])))
       = [(ReadStarter, Some (sys_error ENOENT ''open'' (starter [''app''])))]"
proof -
  have h: "resolve (starter [''app'']) [starter [''app''] \<mapsto> File ''hello'']
      = Inr (File ''hello'')"
    by (simp add: resolve_def blocked_def starter_def path_join_def)
  have c: "completed (outcome alone [''app''] [starter [''app''] \<mapsto> File ''hello''])"
    by (simp add: fixture_defs completed_def all_steps_def)
  show ?thesis
    using c second_run_fails [OF h] by simp
qed

text \<open>
  C10. Where something is already at \<open>files/newreply.txt\<close> and the run with the
  filesystem to itself completes, the rename was fulfilled and \<open>files/newreply.txt\<close>
  holds the new text, the text of the starter file with the suffix, in place of what
  was there; and where a regular file is already there, the run completes whenever it
  would complete without that file: the destination is overwritten, not protected.
\<close>

theorem rename_overwrites:
  "(d (newreply dirname) = Some n \<and> d (starter dirname) = Some (File t)
      \<and> completed (outcome alone dirname d)
     \<longrightarrow> (RenameReply, None) \<in> set (calls (outcome alone dirname d))
       \<and> disk (outcome alone dirname d) (newreply dirname) = Some (File (t @ suffix_text)))
   \<and> (d (newreply dirname) = Some (File old)
      \<and> completed (outcome alone dirname (d(newreply dirname := None)))
     \<longrightarrow> completed (outcome alone dirname d))"
proof (intro conjI impI)
  assume a: "d (newreply dirname) = Some n \<and> d (starter dirname) = Some (File t)
      \<and> completed (outcome alone dirname d)"
  then obtain t' where t': "resolve (starter dirname) d = Inr (File t')"
    and r: "d (reply dirname) \<noteq> Some Dir" and n: "d (newreply dirname) \<noteq> Some Dir"
    by (auto simp: alone_completed_iff)
  from a t' have "t' = t"
    by (simp add: resolve_file)
  with t' have t: "resolve (starter dirname) d = Inr (File t)"
    by simp
  show "(RenameReply, None) \<in> set (calls (outcome alone dirname d))"
    by (simp add: alone_run [OF t r n] all_steps_def)
  show "disk (outcome alone dirname d) (newreply dirname) = Some (File (t @ suffix_text))"
    by (simp add: alone_run [OF t r n])
next
  assume "d (newreply dirname) = Some (File old)
      \<and> completed (outcome alone dirname (d(newreply dirname := None)))"
  then show "completed (outcome alone dirname d)"
    by (auto simp: alone_completed_iff resolve_def)
qed

theorem rename_overwrites_witness:
  "completed (outcome alone [''app'']
      [starter [''app''] \<mapsto> File ''hello'', newreply [''app''] \<mapsto> File ''old''])
   \<and> (RenameReply, None) \<in> set (calls (outcome alone [''app'']
      [starter [''app''] \<mapsto> File ''hello'', newreply [''app''] \<mapsto> File ''old'']))
   \<and> disk (outcome alone [''app'']
      [starter [''app''] \<mapsto> File ''hello'', newreply [''app''] \<mapsto> File ''old''])
      (newreply [''app'']) = Some (File (''hello'' @ suffix_text))"
proof -
  have h: "completed (outcome alone [''app'']
      [starter [''app''] \<mapsto> File ''hello'', newreply [''app''] \<mapsto> File ''old''])"
    by (simp add: fixture_defs completed_def all_steps_def)
  show ?thesis
    using h rename_overwrites [of
        "[starter [''app''] \<mapsto> File ''hello'', newreply [''app''] \<mapsto> File ''old'']"
        "[''app'']" "File ''old''" "''hello''" "''old''"]
    by simp
qed

end
